theory Spec2Isabelle
  imports Complex_Main
begin

section \<open>The webhook adapter of dialogflow-fulfillment-client\<close>

text \<open>
  A shallow embedding of the class \<open>WebhookClient\<close> of
  \<^verbatim>\<open>src/dialogflow-fulfillment-client.ts\<close>. The class wraps a parsed webhook
  request body, exposes thirteen getters on it, accumulates a response body through
  \<open>add\<close>, \<open>addContext\<close>, \<open>clearFulfillments\<close> and \<open>clearContexts\<close>, and
  \<open>handleRequest\<close> awaits the handler selected by the intent's display name and then
  passes the response body to \<open>response.send\<close>.
\<close>

subsection \<open>JavaScript values\<close>

text \<open>
  A property of a JavaScript object is absent (\<open>undefined\<close>), \<open>null\<close>, or holds
  a value. The two empty cases are kept apart: \<open>?.\<close> and \<open>??\<close> treat them alike,
  a property key and a serialised body do not.
\<close>

datatype 'a nullable = Undefined | Null | Def 'a

text \<open>\<open>a?.f\<close>: \<open>undefined\<close> when \<open>a\<close> is \<open>undefined\<close> or \<open>null\<close>, the property otherwise.\<close>

definition opt_chain :: "'a nullable \<Rightarrow> ('a \<Rightarrow> 'b nullable) \<Rightarrow> 'b nullable" where
  "opt_chain a f = (case a of Def x \<Rightarrow> f x | _ \<Rightarrow> Undefined)"

text \<open>\<open>x ?? null\<close>.\<close>

definition or_null :: "'a nullable \<Rightarrow> 'a nullable" where
  "or_null x = (case x of Def v \<Rightarrow> Def v | _ \<Rightarrow> Null)"

text \<open>
  The values \<open>add\<close> can meet at run time, whatever its TypeScript signature
  \<open>string | string[]\<close> says: the primitives, arrays and plain objects. Numbers are
  the integral ones. A plain object \<open>JObj l ps\<close> (data properties only, prototype
  \<open>Object.prototype\<close>) is given by its own property \<open>length\<close>, a number, when it has
  one (\<open>l\<close>), and by its other own properties (\<open>ps\<close>). Objects whose \<open>length\<close> is
  not a number are left out: comparing it with \<open>0\<close> would go through the conversion of
  strings to floating-point numbers.
\<close>

datatype jsval =
    JUndefined
  | JNull
  | JBool bool
  | JNum int
  | JStr string
  | JArr "jsval list"
  | JObj "int option" "(string \<times> jsval) list"

text \<open>\<open>typeof v === 'string'\<close>.\<close>

fun is_string :: "jsval \<Rightarrow> bool" where
  "is_string (JStr s) = True"
| "is_string v = False"

text \<open>
  \<open>v?.length\<close>: strings and arrays have a length, a plain object has the one it
  carries, if any, \<open>undefined\<close> and \<open>null\<close> stop the chain, booleans and numbers have
  no such property. \<open>None\<close> is \<open>undefined\<close>.
\<close>

fun js_length :: "jsval \<Rightarrow> int option" where
  "js_length (JStr s) = Some (int (length s))"
| "js_length (JArr xs) = Some (int (length xs))"
| "js_length (JObj l ps) = l"
| "js_length v = None"

text \<open>
  What \<open>for (const x of v)\<close> runs through: the elements of an array, the characters of
  a string (a case \<open>add\<close> never reaches, strings taking its first branch); any other
  value of the model, a plain object included, is not iterable (\<open>None\<close>, a TypeError).
  This is the loop as the source has it; a build that lowers \<open>for ... of\<close> to an
  indexed loop would walk an object with a positive \<open>length\<close> instead of raising.
  The properties below hold either way.
\<close>

fun iterate :: "jsval \<Rightarrow> jsval list option" where
  "iterate (JArr xs) = Some xs"
| "iterate (JStr s) = Some (map (\<lambda>ch. JStr [ch]) s)"
| "iterate v = None"

text \<open>A plain object that carries a positive \<open>length\<close>.\<close>

fun array_like :: "jsval \<Rightarrow> bool" where
  "array_like (JObj (Some n) ps) = (n > 0)"
| "array_like v = False"

fun is_array :: "jsval \<Rightarrow> bool" where
  "is_array (JArr xs) = True"
| "is_array v = False"

subsection \<open>The payloads\<close>

type_synonym struct = "(string \<times> jsval) list"

type_synonym ref = nat

record intent_t =
  intent_name :: "string nullable"
  displayName :: "string nullable"

record context_t =
  ctx_name :: string
  ctx_lifespanCount :: int
  ctx_parameters :: struct

text \<open>
  A fulfillment message: the text variant \<open>{ text: { text: [...] } }\<close> that \<open>add\<close>
  builds, or any other variant of the platform (card, image, payload, ...), which the
  adapter only passes through.
\<close>

datatype message =
    TextMessage "jsval list"
  | OtherMessage string

record original_detect_intent_request =
  odir_source :: "string nullable"
  odir_version :: "string nullable"
  odir_payload :: "struct nullable"

text \<open>
  \<open>queryResult\<close>. Its two arrays are objects of the heap: the record holds their
  addresses, since the constructor stores the very same arrays in the response body.
\<close>

record query_result =
  qr_queryText :: "string nullable"
  qr_parameters :: "struct nullable"
  qr_allRequiredParamsPresent :: "bool nullable"
  qr_fulfillmentText :: "string nullable"
  qr_fulfillmentMessages :: "ref nullable"
  qr_outputContexts :: "ref nullable"
  qr_intent :: "intent_t nullable"
  qr_intentDetectionConfidence :: "real nullable"
  qr_diagnosticInfo :: "struct nullable"
  qr_languageCode :: "string nullable"

record webhook_request =
  req_responseId :: "string nullable"
  req_session :: "string nullable"
  req_queryResult :: "query_result nullable"
  req_originalDetectIntentRequest :: "original_detect_intent_request nullable"

record webhook_response =
  resp_fulfillmentMessages :: "ref nullable"
  resp_outputContexts :: "ref nullable"

text \<open>What \<open>response.send\<close> receives: the response body with its arrays read out.\<close>

record sent_body =
  sent_fulfillmentMessages :: "message list nullable"
  sent_outputContexts :: "context_t list nullable"

datatype error = TypeError | HandlerError string

subsection \<open>The heap and the adapter's state\<close>

text \<open>
  Arrays are mutable objects. \<open>messages_at\<close> and \<open>contexts_at\<close> give the contents of
  the message array and of the context array at an address; \<open>fresh\<close> is the next
  address an array literal \<open>[]\<close> is allocated at.
\<close>

record store =
  messages_at :: "ref \<Rightarrow> message list"
  contexts_at :: "ref \<Rightarrow> context_t list"
  fresh :: ref

text \<open>
  An instance: the heap, the two private bodies, and the bodies \<open>response.send\<close> has
  been called with, oldest first.
\<close>

record client = store +
  webhookRequestBody :: webhook_request
  webhookResponseBody :: webhook_response
  sent :: "sent_body list"

text \<open>
  The constructor. \<open>request.body\<close> is read without a guard, so a missing body is a
  TypeError. The two fields of the response body receive the references found in
  \<open>queryResult\<close>: nothing is copied on the heap.
\<close>

definition WebhookClient :: "store \<Rightarrow> webhook_request nullable \<Rightarrow> error + client" where
  "WebhookClient st body =
     (case body of
        Def b \<Rightarrow>
          Inr \<lparr> messages_at = messages_at st, contexts_at = contexts_at st, fresh = fresh st,
                webhookRequestBody = b,
                webhookResponseBody =
                  \<lparr> resp_fulfillmentMessages = opt_chain (req_queryResult b) qr_fulfillmentMessages,
                    resp_outputContexts = opt_chain (req_queryResult b) qr_outputContexts \<rparr>,
                sent = [] \<rparr>
      | _ \<Rightarrow> Inl TypeError)"

subsection \<open>The getters\<close>

definition responseId :: "client \<Rightarrow> string nullable" where
  "responseId c = or_null (req_responseId (webhookRequestBody c))"

definition session :: "client \<Rightarrow> string nullable" where
  "session c = or_null (req_session (webhookRequestBody c))"

definition query :: "client \<Rightarrow> string nullable" where
  "query c = or_null (opt_chain (req_queryResult (webhookRequestBody c)) qr_queryText)"

definition parameters :: "client \<Rightarrow> struct nullable" where
  "parameters c = or_null (opt_chain (req_queryResult (webhookRequestBody c)) qr_parameters)"

definition allRequiredParamsPresent :: "client \<Rightarrow> bool nullable" where
  "allRequiredParamsPresent c =
     or_null (opt_chain (req_queryResult (webhookRequestBody c)) qr_allRequiredParamsPresent)"

definition fulfillmentText :: "client \<Rightarrow> string nullable" where
  "fulfillmentText c =
     or_null (opt_chain (req_queryResult (webhookRequestBody c)) qr_fulfillmentText)"

definition fulfillmentMessages :: "client \<Rightarrow> ref nullable" where
  "fulfillmentMessages c =
     or_null (opt_chain (req_queryResult (webhookRequestBody c)) qr_fulfillmentMessages)"

definition outputContexts :: "client \<Rightarrow> ref nullable" where
  "outputContexts c =
     or_null (opt_chain (req_queryResult (webhookRequestBody c)) qr_outputContexts)"

definition intent :: "client \<Rightarrow> intent_t nullable" where
  "intent c = or_null (opt_chain (req_queryResult (webhookRequestBody c)) qr_intent)"

definition intentDetectionConfidence :: "client \<Rightarrow> real nullable" where
  "intentDetectionConfidence c =
     or_null (opt_chain (req_queryResult (webhookRequestBody c)) qr_intentDetectionConfidence)"

definition diagnosticInfo :: "client \<Rightarrow> struct nullable" where
  "diagnosticInfo c =
     or_null (opt_chain (req_queryResult (webhookRequestBody c)) qr_diagnosticInfo)"

definition languageCode :: "client \<Rightarrow> string nullable" where
  "languageCode c = or_null (opt_chain (req_queryResult (webhookRequestBody c)) qr_languageCode)"

definition originalDetectIntentRequest :: "client \<Rightarrow> original_detect_intent_request nullable" where
  "originalDetectIntentRequest c =
     or_null (req_originalDetectIntentRequest (webhookRequestBody c))"

text \<open>
  A getter that returns an array returns its address; \<open>messages_of\<close> and
  \<open>contexts_of\<close> read the array that a caller sees behind it, in a heap or in the
  heap of an instance.
\<close>

definition messages_of :: "'a store_scheme \<Rightarrow> ref nullable \<Rightarrow> message list nullable" where
  "messages_of c r = (case r of Def a \<Rightarrow> Def (messages_at c a) | Null \<Rightarrow> Null | Undefined \<Rightarrow> Undefined)"

definition contexts_of :: "'a store_scheme \<Rightarrow> ref nullable \<Rightarrow> context_t list nullable" where
  "contexts_of c r = (case r of Def a \<Rightarrow> Def (contexts_at c a) | Null \<Rightarrow> Null | Undefined \<Rightarrow> Undefined)"

subsection \<open>The mutation operations\<close>

text \<open>\<open>this.webhookResponseBody.fulfillmentMessages?.push({ text: { text: [v] } })\<close>.\<close>

definition push_text :: "jsval \<Rightarrow> client \<Rightarrow> client" where
  "push_text v c =
     (case resp_fulfillmentMessages (webhookResponseBody c) of
        Def r \<Rightarrow> c\<lparr> messages_at := (messages_at c)(r := messages_at c r @ [TextMessage [v]]) \<rparr>
      | _ \<Rightarrow> c)"

text \<open>\<open>isStringArray(obj)\<close>: \<open>obj?.length > 0\<close>, false when the length is \<open>undefined\<close>.\<close>

definition isStringArray :: "jsval \<Rightarrow> bool" where
  "isStringArray obj = (case js_length obj of Some n \<Rightarrow> n > 0 | None \<Rightarrow> False)"

definition add :: "jsval \<Rightarrow> client \<Rightarrow> error + client" where
  "add response c =
     (if is_string response then Inr (push_text response c)
      else if isStringArray response then
        (case iterate response of
           Some xs \<Rightarrow> Inr (fold push_text xs c)
         | None \<Rightarrow> Inl TypeError)
      else Inr c)"

text \<open>The assignment of a new empty array, allocated at the next free address.\<close>

definition clearFulfillments :: "client \<Rightarrow> error + client" where
  "clearFulfillments c =
     Inr (c\<lparr> messages_at := (messages_at c)(fresh c := []),
             fresh := Suc (fresh c),
             webhookResponseBody :=
               (webhookResponseBody c)\<lparr> resp_fulfillmentMessages := Def (fresh c) \<rparr> \<rparr>)"

text \<open>
  What \<open>addContext\<close> can be called with: an object made by the class \<open>Context\<close>, a
  context record that is a plain object (as the records of the request body are), or an
  array of context records.
\<close>

datatype context_arg =
    ContextInstance context_t
  | PlainRecord context_t
  | ContextArray "context_t list"

text \<open>
  \<open>addContext\<close>. Both branches read \<open>.push\<close> from
  \<open>this.webhookResponseBody.outputContexts\<close> with no guard: on \<open>undefined\<close> or
  \<open>null\<close> that is a TypeError, raised before the argument is looked at. Otherwise the
  test \<open>context instanceof Context\<close> decides: an instance of the class passes it and
  is pushed; an array and a plain record fail it and are spread into \<open>push\<close>, which
  appends the elements of the array, while a plain record is not iterable, a TypeError.
  (This is the spread as the source has it; a build that lowers it to \<open>push.apply\<close>
  would append nothing for a plain record instead of raising. The properties below hold
  either way.)
\<close>

definition addContext :: "context_arg \<Rightarrow> client \<Rightarrow> error + client" where
  "addContext arg c =
     (case resp_outputContexts (webhookResponseBody c) of
        Def r \<Rightarrow>
          (case arg of
             ContextInstance x \<Rightarrow>
               Inr (c\<lparr> contexts_at := (contexts_at c)(r := contexts_at c r @ [x]) \<rparr>)
           | PlainRecord x \<Rightarrow> Inl TypeError
           | ContextArray xs \<Rightarrow>
               Inr (c\<lparr> contexts_at := (contexts_at c)(r := contexts_at c r @ xs) \<rparr>))
      | _ \<Rightarrow> Inl TypeError)"

definition clearContexts :: "client \<Rightarrow> error + client" where
  "clearContexts c =
     Inr (c\<lparr> contexts_at := (contexts_at c)(fresh c := []),
             fresh := Suc (fresh c),
             webhookResponseBody :=
               (webhookResponseBody c)\<lparr> resp_outputContexts := Def (fresh c) \<rparr> \<rparr>)"

subsection \<open>Dispatch\<close>

text \<open>
  What awaiting a handler's result gives: it is fulfilled, it is rejected (or the
  handler threw), or it never settles. The state is the one reached at that point.
\<close>

datatype status = Fulfilled | Rejected error | Pending

type_synonym handler = "client \<Rightarrow> status \<times> client"

text \<open>
  The intent map is an object: its own properties are the handlers, and it inherits the
  properties of its prototype, which are functions or not.
\<close>

datatype property = Callable handler | NotCallable

record intent_map =
  own_handlers :: "string \<rightharpoonup> handler"
  inherited :: "string \<rightharpoonup> property"

text \<open>
  \<open>intentMap[k]\<close>: the own property under the key \<open>k\<close>, else the inherited one, else
  \<open>undefined\<close> (\<open>None\<close>).
\<close>

definition get_property :: "intent_map \<Rightarrow> string \<Rightarrow> property option" where
  "get_property m k =
     (case own_handlers m k of Some h \<Rightarrow> Some (Callable h) | None \<Rightarrow> inherited m k)"

text \<open>
  What an object literal inherits from \<open>Object.prototype\<close>, as each member behaves when
  it is called as \<open>intentMap[k](agent)\<close>: \<open>constructor\<close> (that is \<open>Object\<close>) returns
  the agent, \<open>toString\<close>, \<open>hasOwnProperty\<close>, \<open>isPrototypeOf\<close>,
  \<open>propertyIsEnumerable\<close>, \<open>__lookupGetter__\<close> and \<open>__lookupSetter__\<close> return a
  string, a boolean or \<open>undefined\<close>; \<open>__defineGetter__\<close> and \<open>__defineSetter__\<close>
  throw a TypeError, their second argument being no function; \<open>__proto__\<close> is an
  object, not a function. \<open>toLocaleString\<close> calls the map's \<open>toString\<close> and
  \<open>valueOf\<close> returns the map, which \<open>await\<close> then resolves: the two are given as
  they behave on a map that has no handler of its own under \<open>toString\<close> or \<open>then\<close>.
  None of them touches the agent.
\<close>

definition returns_normally :: handler where
  "returns_normally c = (Fulfilled, c)"

definition throws_TypeError :: handler where
  "throws_TypeError c = (Rejected TypeError, c)"

definition Object_prototype :: "string \<rightharpoonup> property" where
  "Object_prototype = map_of
     [(''constructor'', Callable returns_normally),
      (''toString'', Callable returns_normally),
      (''toLocaleString'', Callable returns_normally),
      (''valueOf'', Callable returns_normally),
      (''hasOwnProperty'', Callable returns_normally),
      (''isPrototypeOf'', Callable returns_normally),
      (''propertyIsEnumerable'', Callable returns_normally),
      (''__lookupGetter__'', Callable returns_normally),
      (''__lookupSetter__'', Callable returns_normally),
      (''__defineGetter__'', Callable throws_TypeError),
      (''__defineSetter__'', Callable throws_TypeError),
      (''__proto__'', NotCallable)]"

text \<open>The object literal \<open>{ k1: h1, ... }\<close> with the handlers \<open>hs\<close>.\<close>

definition object_literal :: "(string \<rightharpoonup> handler) \<Rightarrow> intent_map" where
  "object_literal hs = \<lparr> own_handlers = hs, inherited = Object_prototype \<rparr>"

text \<open>\<open>this.webhookRequestBody?.queryResult?.intent?.displayName\<close>.\<close>

definition detected_displayName :: "client \<Rightarrow> string nullable" where
  "detected_displayName c =
     opt_chain (opt_chain (req_queryResult (webhookRequestBody c)) qr_intent) displayName"

text \<open>A value used as a property key is turned into a string.\<close>

definition property_key :: "string nullable \<Rightarrow> string" where
  "property_key k = (case k of Def s \<Rightarrow> s | Null \<Rightarrow> ''null'' | Undefined \<Rightarrow> ''undefined'')"

text \<open>\<open>this.response.send(this.webhookResponseBody)\<close>: the body is serialised as it is now.\<close>

definition serialized :: "client \<Rightarrow> sent_body" where
  "serialized c =
     \<lparr> sent_fulfillmentMessages = messages_of c (resp_fulfillmentMessages (webhookResponseBody c)),
       sent_outputContexts = contexts_of c (resp_outputContexts (webhookResponseBody c)) \<rparr>"

definition send :: "client \<Rightarrow> client" where
  "send c = c\<lparr> sent := sent c @ [serialized c] \<rparr>"

text \<open>
  \<open>handleRequest\<close>: calling \<open>undefined\<close>, or a property that is no function, is a
  TypeError that rejects the call; a rejected or pending handler leaves the \<open>await\<close>
  without reaching \<open>send\<close>.
\<close>

definition handleRequest :: "intent_map \<Rightarrow> client \<Rightarrow> status \<times> client" where
  "handleRequest intentMap c =
     (case get_property intentMap (property_key (detected_displayName c)) of
        None \<Rightarrow> (Rejected TypeError, c)
      | Some NotCallable \<Rightarrow> (Rejected TypeError, c)
      | Some (Callable h) \<Rightarrow>
          (case h c of
             (Fulfilled, c') \<Rightarrow> (Fulfilled, send c')
           | (Rejected e, c') \<Rightarrow> (Rejected e, c')
           | (Pending, c') \<Rightarrow> (Pending, c')))"

subsection \<open>Calls in sequence\<close>

text \<open>
  \<open>calls [f, g, ...] c\<close>: the statements \<open>f(); g(); ...\<close> run one after the other on
  the instance; the first error ends the run, as an exception does.
\<close>

fun calls :: "(client \<Rightarrow> error + client) list \<Rightarrow> client \<Rightarrow> error + client" where
  "calls [] c = Inr c"
| "calls (f # fs) c = (case f c of Inl e \<Rightarrow> Inl e | Inr c' \<Rightarrow> calls fs c')"

text \<open>The four mutation operations as one type, to speak of any sequence of them.\<close>

datatype mutation = Add jsval | AddContext context_arg | ClearFulfillments | ClearContexts

fun mutate :: "mutation \<Rightarrow> client \<Rightarrow> error + client" where
  "mutate (Add v) c = add v c"
| "mutate (AddContext a) c = addContext a c"
| "mutate ClearFulfillments c = clearFulfillments c"
| "mutate ClearContexts c = clearContexts c"

subsection \<open>Example payloads\<close>

definition order_context :: context_t where
  "order_context =
     \<lparr> ctx_name = ''projects/p/agent/sessions/s/contexts/order'',
       ctx_lifespanCount = 5, ctx_parameters = [] \<rparr>"

definition paid_context :: context_t where
  "paid_context =
     \<lparr> ctx_name = ''projects/p/agent/sessions/s/contexts/paid'',
       ctx_lifespanCount = 2, ctx_parameters = [(''amount'', JNum 12)] \<rparr>"

text \<open>A heap with the request's message array (one card) and context array at address 0.\<close>

definition example_store :: store where
  "example_store =
     \<lparr> messages_at = (\<lambda>a. [])(0 := [OtherMessage ''card'']),
       contexts_at = (\<lambda>a. [])(0 := [order_context]),
       fresh = 1 \<rparr>"

definition start_request :: webhook_request where
  "start_request =
     \<lparr> req_responseId = Def ''r-1'',
       req_session = Def ''projects/p/agent/sessions/s'',
       req_queryResult = Def
         \<lparr> qr_queryText = Def ''hi'',
           qr_parameters = Def [],
           qr_allRequiredParamsPresent = Def True,
           qr_fulfillmentText = Def ''Hello'',
           qr_fulfillmentMessages = Def 0,
           qr_outputContexts = Def 0,
           qr_intent = Def \<lparr> intent_name = Def ''projects/p/agent/intents/1'',
                             displayName = Def ''Start'' \<rparr>,
           qr_intentDetectionConfidence = Def 1,
           qr_diagnosticInfo = Undefined,
           qr_languageCode = Def ''en'' \<rparr>,
       req_originalDetectIntentRequest = Undefined \<rparr>"

text \<open>A request body that has a \<open>responseId\<close> and no \<open>queryResult\<close>.\<close>

definition bare_request :: webhook_request where
  "bare_request =
     \<lparr> req_responseId = Def ''r-1'',
       req_session = Undefined,
       req_queryResult = Undefined,
       req_originalDetectIntentRequest = Undefined \<rparr>"

text \<open>A request body whose \<open>queryResult\<close> has neither of the two arrays.\<close>

definition plain_request :: webhook_request where
  "plain_request =
     \<lparr> req_responseId = Def ''r-2'',
       req_session = Def ''projects/p/agent/sessions/s'',
       req_queryResult = Def
         \<lparr> qr_queryText = Def ''hi'',
           qr_parameters = Undefined,
           qr_allRequiredParamsPresent = Undefined,
           qr_fulfillmentText = Undefined,
           qr_fulfillmentMessages = Undefined,
           qr_outputContexts = Undefined,
           qr_intent = Def \<lparr> intent_name = Undefined, displayName = Def ''Start'' \<rparr>,
           qr_intentDetectionConfidence = Undefined,
           qr_diagnosticInfo = Undefined,
           qr_languageCode = Undefined \<rparr>,
       req_originalDetectIntentRequest = Undefined \<rparr>"

definition start_client :: client where
  "start_client = projr (WebhookClient example_store (Def start_request))"

definition bare_client :: client where
  "bare_client = projr (WebhookClient example_store (Def bare_request))"

text \<open>The handler \<open>(agent) => agent.add("Welcome")\<close> and the map \<open>{ Start: ... }\<close>.\<close>

definition plain_client :: client where
  "plain_client = projr (WebhookClient example_store (Def plain_request))"

definition welcome_handler :: handler where
  "welcome_handler c =
     (case add (JStr ''Welcome'') c of Inr c' \<Rightarrow> (Fulfilled, c') | Inl e \<Rightarrow> (Rejected e, c))"

definition start_map :: intent_map where
  "start_map = object_literal [''Start'' \<mapsto> welcome_handler]"

text \<open>The map \<open>{ Stop: ... }\<close>, which has no handler for the intent \<open>Start\<close>.\<close>

definition stop_map :: intent_map where
  "stop_map = object_literal [''Stop'' \<mapsto> welcome_handler]"

text \<open>The request of \<open>start_request\<close> for an intent that is named \<open>toString\<close>.\<close>

definition toString_request :: webhook_request where
  "toString_request =
     \<lparr> req_responseId = Def ''r-3'',
       req_session = Def ''projects/p/agent/sessions/s'',
       req_queryResult = Def
         \<lparr> qr_queryText = Def ''hi'',
           qr_parameters = Def [],
           qr_allRequiredParamsPresent = Def True,
           qr_fulfillmentText = Def ''Hello'',
           qr_fulfillmentMessages = Def 0,
           qr_outputContexts = Def 0,
           qr_intent = Def \<lparr> intent_name = Def ''projects/p/agent/intents/2'',
                             displayName = Def ''toString'' \<rparr>,
           qr_intentDetectionConfidence = Def 1,
           qr_diagnosticInfo = Undefined,
           qr_languageCode = Def ''en'' \<rparr>,
       req_originalDetectIntentRequest = Undefined \<rparr>"

definition toString_client :: client where
  "toString_client = projr (WebhookClient example_store (Def toString_request))"


text \<open>A handler that adds a text and then throws.\<close>

definition rejecting_handler :: handler where
  "rejecting_handler c =
     (case add (JStr ''partial'') c of
        Inr c' \<Rightarrow> (Rejected (HandlerError ''boom''), c')
      | Inl e \<Rightarrow> (Rejected e, c))"

section \<open>Properties\<close>

subsection \<open>The examples, evaluated\<close>

lemma start_client_eq:
  "start_client =
     \<lparr> messages_at = (\<lambda>a. [])(0 := [OtherMessage ''card'']),
       contexts_at = (\<lambda>a. [])(0 := [order_context]),
       fresh = 1,
       webhookRequestBody = start_request,
       webhookResponseBody = \<lparr> resp_fulfillmentMessages = Def 0, resp_outputContexts = Def 0 \<rparr>,
       sent = [] \<rparr>"
  by (simp add: start_client_def WebhookClient_def example_store_def start_request_def opt_chain_def)

lemma plain_client_eq:
  "plain_client =
     \<lparr> messages_at = (\<lambda>a. [])(0 := [OtherMessage ''card'']),
       contexts_at = (\<lambda>a. [])(0 := [order_context]),
       fresh = 1,
       webhookRequestBody = plain_request,
       webhookResponseBody = \<lparr> resp_fulfillmentMessages = Undefined, resp_outputContexts = Undefined \<rparr>,
       sent = [] \<rparr>"
  by (simp add: plain_client_def WebhookClient_def example_store_def plain_request_def opt_chain_def)

lemma toString_client_eq:
  "toString_client =
     \<lparr> messages_at = (\<lambda>a. [])(0 := [OtherMessage ''card'']),
       contexts_at = (\<lambda>a. [])(0 := [order_context]),
       fresh = 1,
       webhookRequestBody = toString_request,
       webhookResponseBody = \<lparr> resp_fulfillmentMessages = Def 0, resp_outputContexts = Def 0 \<rparr>,
       sent = [] \<rparr>"
  by (simp add: toString_client_def WebhookClient_def example_store_def toString_request_def
      opt_chain_def)

lemma bare_client_eq:
  "bare_client =
     \<lparr> messages_at = (\<lambda>a. [])(0 := [OtherMessage ''card'']),
       contexts_at = (\<lambda>a. [])(0 := [order_context]),
       fresh = 1,
       webhookRequestBody = bare_request,
       webhookResponseBody = \<lparr> resp_fulfillmentMessages = Undefined, resp_outputContexts = Undefined \<rparr>,
       sent = [] \<rparr>"
  by (simp add: bare_client_def WebhookClient_def example_store_def bare_request_def opt_chain_def)

subsection \<open>What the operations do to the heap\<close>

lemma push_text_Def:
  "resp_fulfillmentMessages (webhookResponseBody c) = Def r \<Longrightarrow>
   push_text v c = c\<lparr> messages_at := (messages_at c)(r := messages_at c r @ [TextMessage [v]]) \<rparr>"
  by (simp add: push_text_def)

text \<open>The loop of \<open>add\<close> appends one text message per element, in the order of the elements.\<close>

lemma fold_push_text_Def:
  "resp_fulfillmentMessages (webhookResponseBody c) = Def r \<Longrightarrow>
   fold push_text xs c =
     c\<lparr> messages_at := (messages_at c)(r := messages_at c r @ map (\<lambda>v. TextMessage [v]) xs) \<rparr>"
proof (induction xs arbitrary: c)
  case Nil
  then show ?case by simp
next
  case (Cons x xs)
  let ?c1 = "push_text x c"
  have c1: "?c1 = c\<lparr> messages_at := (messages_at c)(r := messages_at c r @ [TextMessage [x]]) \<rparr>"
    using Cons.prems by (rule push_text_Def)
  have step: "resp_fulfillmentMessages (webhookResponseBody ?c1) = Def r"
    using Cons.prems by (simp add: c1)
  have "fold push_text (x # xs) c = fold push_text xs ?c1"
    by simp
  also have "\<dots> = ?c1\<lparr> messages_at :=
      (messages_at ?c1)(r := messages_at ?c1 r @ map (\<lambda>v. TextMessage [v]) xs) \<rparr>"
    by (rule Cons.IH [OF step])
  also have "\<dots> = c\<lparr> messages_at :=
      (messages_at c)(r := messages_at c r @ map (\<lambda>v. TextMessage [v]) (x # xs)) \<rparr>"
    by (simp add: c1)
  finally show ?case .
qed

lemma fold_push_text_absent:
  "\<forall>r. resp_fulfillmentMessages (webhookResponseBody c) \<noteq> Def r \<Longrightarrow> fold push_text xs c = c"
  by (induction xs) (auto simp: push_text_def split: nullable.splits)

lemma add_string_Def:
  "resp_fulfillmentMessages (webhookResponseBody c) = Def r \<Longrightarrow>
   add (JStr s) c =
     Inr (c\<lparr> messages_at := (messages_at c)(r := messages_at c r @ [TextMessage [JStr s]]) \<rparr>)"
  by (simp add: add_def push_text_def)

lemma add_strings_Def:
  assumes "resp_fulfillmentMessages (webhookResponseBody c) = Def r" and "l \<noteq> []"
  shows "add (JArr (map JStr l)) c =
     Inr (c\<lparr> messages_at :=
              (messages_at c)(r := messages_at c r @ map (\<lambda>t. TextMessage [JStr t]) l) \<rparr>)"
  using assms(2)
  by (simp add: add_def isStringArray_def fold_push_text_Def [OF assms(1)] comp_def)

text \<open>
  The only argument \<open>add\<close> raises on is a plain object with a positive \<open>length\<close>,
  which passes \<open>isStringArray\<close> and cannot be iterated.
\<close>

lemma add_without_array:
  "\<forall>r. resp_fulfillmentMessages (webhookResponseBody c) \<noteq> Def r \<Longrightarrow> \<not> array_like x \<Longrightarrow>
   add x c = Inr c"
  by (cases x) (auto simp: add_def isStringArray_def push_text_def fold_push_text_absent
      split: nullable.splits option.splits)

lemma add_never_raises: "\<not> array_like x \<Longrightarrow> add x c \<noteq> Inl e"
  by (cases x) (auto simp: add_def isStringArray_def split: option.splits)

lemma calls_add_without_array:
  "\<forall>r. resp_fulfillmentMessages (webhookResponseBody c) \<noteq> Def r \<Longrightarrow>
   \<forall>x \<in> set xs. \<not> array_like x \<Longrightarrow> calls (map add xs) c = Inr c"
  by (induction xs) (simp_all add: add_without_array)

lemma get_property_own:
  "own_handlers m k = Some h \<Longrightarrow> get_property m k = Some (Callable h)"
  by (simp add: get_property_def)

lemma addContext_Def:
  "resp_outputContexts (webhookResponseBody c) = Def r \<Longrightarrow>
   addContext (ContextInstance x) c = Inr (c\<lparr> contexts_at := (contexts_at c)(r := contexts_at c r @ [x]) \<rparr>)
   \<and> addContext (ContextArray xs) c =
       Inr (c\<lparr> contexts_at := (contexts_at c)(r := contexts_at c r @ xs) \<rparr>)"
  by (simp add: addContext_def)


subsection \<open>Dispatch and delivery\<close>

text \<open>
  Claim C1. When the detected intent's display name is a key of the intent map and the
  selected handler is fulfilled in state \<open>c'\<close>, \<open>handleRequest\<close> is fulfilled and
  has called \<open>response.send\<close> once more than the handler itself did: the call comes
  after everything the handler did, and the body it passes is the response body as the
  handler left it.
\<close>

theorem handleRequest_sends_once_after_handler:
  assumes "detected_displayName c = Def name"
      and "own_handlers intentMap name = Some h"
      and "h c = (Fulfilled, c')"
  shows "handleRequest intentMap c = (Fulfilled, c'\<lparr> sent := sent c' @ [serialized c'] \<rparr>)"
  using assms
  by (simp add: handleRequest_def property_key_def send_def get_property_own)

theorem handleRequest_sends_once_after_handler_witness:
  "detected_displayName start_client = Def ''Start''
   \<and> own_handlers start_map ''Start'' = Some welcome_handler
   \<and> fst (welcome_handler start_client) = Fulfilled
   \<and> fst (handleRequest start_map start_client) = Fulfilled
   \<and> sent (snd (handleRequest start_map start_client)) =
       [\<lparr> sent_fulfillmentMessages = Def [OtherMessage ''card'', TextMessage [JStr ''Welcome'']],
          sent_outputContexts = Def [order_context] \<rparr>]"
proof -
  have r: "resp_fulfillmentMessages (webhookResponseBody start_client) = Def 0"
    by (simp add: start_client_eq)
  have n: "detected_displayName start_client = Def ''Start''"
    by (simp add: start_client_eq detected_displayName_def start_request_def opt_chain_def)
  have m: "own_handlers start_map ''Start'' = Some welcome_handler"
    by (simp add: start_map_def object_literal_def)
  have h: "welcome_handler start_client =
      (Fulfilled, start_client\<lparr> messages_at :=
          (messages_at start_client)(0 := messages_at start_client 0 @ [TextMessage [JStr ''Welcome'']]) \<rparr>)"
    by (simp add: welcome_handler_def add_def push_text_def r)
  show ?thesis
    using handleRequest_sends_once_after_handler
        [of start_client "''Start''" start_map welcome_handler
          "start_client\<lparr> messages_at :=
            (messages_at start_client)(0 := messages_at start_client 0 @ [TextMessage [JStr ''Welcome'']]) \<rparr>"]
      n m h
    by (simp add: start_client_eq serialized_def messages_of_def contexts_of_def)
qed

text \<open>
  Claim C2, amended. When the lookup \<open>intentMap[name]\<close> under the detected display name
  finds no function (the name is not a key of the map's own, and the map inherits
  nothing under it, or something that is no function), \<open>handleRequest\<close> is rejected
  with a TypeError and the instance is as before: nothing was sent, nothing was checked
  first, no fallback body was built. A display name that is missing is looked up as the
  key \<open>undefined\<close> or \<open>null\<close>.
\<close>

theorem handleRequest_unmatched_intent_fails:
  assumes "own_handlers intentMap (property_key (detected_displayName c)) = None"
      and "inherited intentMap (property_key (detected_displayName c)) = None
         \<or> inherited intentMap (property_key (detected_displayName c)) = Some NotCallable"
  shows "handleRequest intentMap c = (Rejected TypeError, c)"
  using assms by (auto simp: handleRequest_def get_property_def)

theorem handleRequest_unmatched_intent_fails_witness:
  "property_key (detected_displayName start_client) = ''Start''
   \<and> own_handlers stop_map ''Start'' = None
   \<and> inherited stop_map ''Start'' = None
   \<and> handleRequest stop_map start_client = (Rejected TypeError, start_client)
   \<and> sent (snd (handleRequest stop_map start_client)) = []"
proof -
  have n: "property_key (detected_displayName start_client) = ''Start''"
    by (simp add: start_client_eq detected_displayName_def start_request_def opt_chain_def
        property_key_def)
  have own: "own_handlers stop_map (property_key (detected_displayName start_client)) = None"
    by (simp add: n stop_map_def object_literal_def)
  have inh: "inherited stop_map (property_key (detected_displayName start_client)) = None"
    by (simp add: n stop_map_def object_literal_def Object_prototype_def)
  show ?thesis
    using handleRequest_unmatched_intent_fails [of stop_map start_client] own inh n
    by (simp add: start_client_eq)
qed

text \<open>
  Claim C2 as stated, for every map that lacks the display name as a key, fails: the map
  \<open>{ Start: ... }\<close> has no key \<open>toString\<close>, yet for an intent named \<open>toString\<close> the
  lookup finds the function every object literal inherits, the call does not fail, and
  \<open>handleRequest\<close> is fulfilled and sends the response body.
\<close>

theorem handleRequest_inherited_name_counterexample:
  "property_key (detected_displayName toString_client) = ''toString''
   \<and> own_handlers start_map ''toString'' = None
   \<and> fst (handleRequest start_map toString_client) = Fulfilled
   \<and> sent (snd (handleRequest start_map toString_client)) =
       [\<lparr> sent_fulfillmentMessages = Def [OtherMessage ''card''],
          sent_outputContexts = Def [order_context] \<rparr>]"
  by (simp add: toString_client_eq toString_request_def detected_displayName_def opt_chain_def
      property_key_def start_map_def object_literal_def Object_prototype_def handleRequest_def
      get_property_def returns_normally_def send_def serialized_def messages_of_def
      contexts_of_def)

subsection \<open>Adding text\<close>

text \<open>
  Claim C3. In a state whose response body holds a message array (at address \<open>r\<close>),
  \<open>add(s)\<close> for a string \<open>s\<close> changes nothing but that array, which gains the one
  message \<open>{ text: { text: [s] } }\<close> at its end; \<open>add(l)\<close> for a non-empty array of
  strings \<open>l\<close> gains one such message per element, in the order of \<open>l\<close>.
\<close>

theorem add_appends_text_messages:
  assumes "resp_fulfillmentMessages (webhookResponseBody c) = Def r"
  shows "add (JStr s) c =
           Inr (c\<lparr> messages_at := (messages_at c)(r := messages_at c r @ [TextMessage [JStr s]]) \<rparr>)
       \<and> (l \<noteq> [] \<longrightarrow>
            add (JArr (map JStr l)) c =
              Inr (c\<lparr> messages_at :=
                         (messages_at c)(r := messages_at c r @ map (\<lambda>t. TextMessage [JStr t]) l) \<rparr>))"
  using add_string_Def [OF assms] add_strings_Def [OF assms] by blast

theorem add_appends_text_messages_witness:
  "resp_fulfillmentMessages (webhookResponseBody start_client) = Def 0
   \<and> messages_at start_client 0 = [OtherMessage ''card'']
   \<and> messages_at (projr (add (JStr ''hello'') start_client)) 0 =
       [OtherMessage ''card'', TextMessage [JStr ''hello'']]
   \<and> messages_at (projr (add (JArr [JStr ''a'', JStr ''b'']) start_client)) 0 =
       [OtherMessage ''card'', TextMessage [JStr ''a''], TextMessage [JStr ''b'']]"
proof -
  have r: "resp_fulfillmentMessages (webhookResponseBody start_client) = Def 0"
    by (simp add: start_client_eq)
  show ?thesis
    using add_appends_text_messages [OF r, of "''hello''" "[''a'', ''b'']"]
    by (simp add: start_client_eq)
qed

subsection \<open>Construction\<close>

text \<open>
  Claim C5. On a request body, the constructor succeeds and keeps the body and the heap.
  When the body has a \<open>queryResult\<close>, the two fields of the response body are the
  \<open>fulfillmentMessages\<close> and \<open>outputContexts\<close> of that \<open>queryResult\<close>, so the response
  body serialised right after construction carries the request's own messages and
  contexts. When \<open>queryResult\<close> is missing, both fields are \<open>undefined\<close>.
\<close>

theorem constructor_echoes_inbound_arrays:
  "\<exists>c. WebhookClient st (Def b) = Inr c
     \<and> webhookRequestBody c = b
     \<and> messages_at c = messages_at st \<and> contexts_at c = contexts_at st
     \<and> (\<forall>q. req_queryResult b = Def q \<longrightarrow>
            resp_fulfillmentMessages (webhookResponseBody c) = qr_fulfillmentMessages q
          \<and> resp_outputContexts (webhookResponseBody c) = qr_outputContexts q
          \<and> serialized c =
              \<lparr> sent_fulfillmentMessages = messages_of st (qr_fulfillmentMessages q),
                sent_outputContexts = contexts_of st (qr_outputContexts q) \<rparr>)
     \<and> (req_queryResult b = Undefined \<or> req_queryResult b = Null \<longrightarrow>
            resp_fulfillmentMessages (webhookResponseBody c) = Undefined
          \<and> resp_outputContexts (webhookResponseBody c) = Undefined)"
  by (auto simp: WebhookClient_def opt_chain_def serialized_def messages_of_def contexts_of_def
      split: nullable.splits)

theorem constructor_echoes_inbound_arrays_witness:
  "serialized start_client =
     \<lparr> sent_fulfillmentMessages = Def [OtherMessage ''card''],
       sent_outputContexts = Def [order_context] \<rparr>
   \<and> req_queryResult bare_request = Undefined
   \<and> webhookResponseBody bare_client =
       \<lparr> resp_fulfillmentMessages = Undefined, resp_outputContexts = Undefined \<rparr>"
  using constructor_echoes_inbound_arrays [of example_store start_request]
    constructor_echoes_inbound_arrays [of example_store bare_request]
  by (simp add: start_client_eq bare_client_eq serialized_def messages_of_def contexts_of_def
      bare_request_def)

subsection \<open>Adding contexts\<close>

text \<open>
  Claim C6, amended. In a state whose response body holds a context array (at address
  \<open>r\<close>), \<open>addContext(x)\<close> for one context that is an instance of the class
  \<open>Context\<close> changes nothing but that array, which gains \<open>x\<close> at its end, and
  \<open>addContext(xs)\<close> for an array of contexts gains the elements of \<open>xs\<close> in their
  order.
\<close>

theorem addContext_appends_in_order:
  assumes "resp_outputContexts (webhookResponseBody c) = Def r"
  shows "addContext (ContextInstance x) c =
           Inr (c\<lparr> contexts_at := (contexts_at c)(r := contexts_at c r @ [x]) \<rparr>)
       \<and> addContext (ContextArray xs) c =
           Inr (c\<lparr> contexts_at := (contexts_at c)(r := contexts_at c r @ xs) \<rparr>)"
  using assms by (rule addContext_Def)

theorem addContext_appends_in_order_witness:
  "resp_outputContexts (webhookResponseBody start_client) = Def 0
   \<and> contexts_at (projr (addContext (ContextInstance paid_context) start_client)) 0 =
       [order_context, paid_context]
   \<and> contexts_at (projr (addContext (ContextArray [paid_context, order_context]) start_client)) 0 =
       [order_context, paid_context, order_context]"
proof -
  have r: "resp_outputContexts (webhookResponseBody start_client) = Def 0"
    by (simp add: start_client_eq)
  show ?thesis
    using addContext_appends_in_order [OF r, of paid_context "[paid_context, order_context]"]
    by (simp add: start_client_eq)
qed

text \<open>
  Claim C6 as stated, for every state and every single context record, fails twice. On
  the instance built from a body without \<open>queryResult\<close> the response body has no
  context array, and both forms of \<open>addContext\<close> raise a TypeError and append nothing.
  And where the array exists, a single context record that is a plain object, not made
  by the class \<open>Context\<close>, fails the \<open>instanceof\<close> test and is not appended.
\<close>

theorem addContext_without_array_counterexample:
  "resp_outputContexts (webhookResponseBody bare_client) = Undefined
   \<and> addContext (ContextInstance order_context) bare_client = Inl TypeError
   \<and> addContext (ContextArray [order_context, paid_context]) bare_client = Inl TypeError
   \<and> resp_outputContexts (webhookResponseBody start_client) = Def 0
   \<and> addContext (PlainRecord paid_context) start_client \<noteq>
       Inr (start_client\<lparr> contexts_at :=
              (contexts_at start_client)(0 := contexts_at start_client 0 @ [paid_context]) \<rparr>)"
  by (simp add: bare_client_eq start_client_eq addContext_def)


subsection \<open>The getters on a body without queryResult\<close>

text \<open>
  Claim C7, amended. When the request body has no \<open>queryResult\<close> (it is \<open>undefined\<close>
  or \<open>null\<close>), the ten getters that read through \<open>queryResult\<close> return \<open>null\<close>;
  \<open>responseId\<close>, \<open>session\<close> and \<open>originalDetectIntentRequest\<close> return the body's
  own field, and \<open>null\<close> only when that field is missing. The getters are total
  functions of the instance: none has a failing branch.
\<close>

theorem getters_without_queryResult:
  assumes "req_queryResult (webhookRequestBody c) = Undefined
         \<or> req_queryResult (webhookRequestBody c) = Null"
  shows "query c = Null \<and> parameters c = Null \<and> allRequiredParamsPresent c = Null
       \<and> fulfillmentText c = Null \<and> fulfillmentMessages c = Null \<and> outputContexts c = Null
       \<and> intent c = Null \<and> intentDetectionConfidence c = Null \<and> diagnosticInfo c = Null
       \<and> languageCode c = Null
       \<and> responseId c =
           (case req_responseId (webhookRequestBody c) of Def v \<Rightarrow> Def v | _ \<Rightarrow> Null)
       \<and> session c =
           (case req_session (webhookRequestBody c) of Def v \<Rightarrow> Def v | _ \<Rightarrow> Null)
       \<and> originalDetectIntentRequest c =
           (case req_originalDetectIntentRequest (webhookRequestBody c) of
              Def v \<Rightarrow> Def v | _ \<Rightarrow> Null)"
  using assms
  by (auto simp: query_def parameters_def allRequiredParamsPresent_def fulfillmentText_def
      fulfillmentMessages_def outputContexts_def intent_def intentDetectionConfidence_def
      diagnosticInfo_def languageCode_def responseId_def session_def
      originalDetectIntentRequest_def opt_chain_def or_null_def)

theorem getters_without_queryResult_witness:
  "req_queryResult (webhookRequestBody bare_client) = Undefined
   \<and> query bare_client = Null \<and> parameters bare_client = Null
   \<and> allRequiredParamsPresent bare_client = Null \<and> fulfillmentText bare_client = Null
   \<and> fulfillmentMessages bare_client = Null \<and> outputContexts bare_client = Null
   \<and> intent bare_client = Null \<and> intentDetectionConfidence bare_client = Null
   \<and> diagnosticInfo bare_client = Null \<and> languageCode bare_client = Null
   \<and> responseId bare_client = Def ''r-1'' \<and> session bare_client = Null
   \<and> originalDetectIntentRequest bare_client = Null"
proof -
  have q: "req_queryResult (webhookRequestBody bare_client) = Undefined"
    by (simp add: bare_client_eq bare_request_def)
  show ?thesis
    using getters_without_queryResult [of bare_client] q
    by (simp add: bare_client_eq bare_request_def)
qed

text \<open>
  Claim C7 as stated fails for \<open>responseId\<close>: on a body \<open>{ responseId: "r-1" }\<close>
  without \<open>queryResult\<close> the getter returns \<open>"r-1"\<close>, not \<open>null\<close>.
\<close>

theorem responseId_without_queryResult_counterexample:
  "req_queryResult (webhookRequestBody bare_client) = Undefined
   \<and> responseId bare_client = Def ''r-1''"
  by (simp add: bare_client_eq bare_request_def responseId_def or_null_def)

subsection \<open>Arguments that add ignores\<close>

text \<open>
  Claim C8, amended. \<open>add(x)\<close> returns without an error and leaves the whole instance
  unchanged when \<open>x\<close> is the empty array, or is neither a string, nor an array, nor an
  object with a positive \<open>length\<close>: that is \<open>undefined\<close>, \<open>null\<close>, a boolean, a
  number, or an object that has no \<open>length\<close> or one that is not positive.
\<close>

theorem add_ignores_empty_and_non_array:
  assumes "x = JArr [] \<or> (\<not> is_string x \<and> \<not> is_array x \<and> \<not> array_like x)"
  shows "add x c = Inr c"
  using assms
  by (cases x) (auto simp: add_def isStringArray_def split: option.splits)

theorem add_ignores_empty_and_non_array_witness:
  "add (JArr []) start_client = Inr start_client
   \<and> add JUndefined start_client = Inr start_client
   \<and> add JNull start_client = Inr start_client
   \<and> add (JBool True) start_client = Inr start_client
   \<and> add (JNum 7) start_client = Inr start_client
   \<and> \<not> is_string (JObj None [(''text'', JStr ''a'')])
   \<and> \<not> is_array (JObj None [(''text'', JStr ''a'')])
   \<and> \<not> array_like (JObj None [(''text'', JStr ''a'')])
   \<and> add (JObj None [(''text'', JStr ''a'')]) start_client = Inr start_client
   \<and> \<not> array_like (JObj (Some 0) [])
   \<and> add (JObj (Some 0) []) start_client = Inr start_client"
  using add_ignores_empty_and_non_array [of "JArr []" start_client]
    add_ignores_empty_and_non_array [of JUndefined start_client]
    add_ignores_empty_and_non_array [of JNull start_client]
    add_ignores_empty_and_non_array [of "JBool True" start_client]
    add_ignores_empty_and_non_array [of "JNum 7" start_client]
    add_ignores_empty_and_non_array [of "JObj None [(''text'', JStr ''a'')]" start_client]
    add_ignores_empty_and_non_array [of "JObj (Some 0) []" start_client]
  by simp

text \<open>
  Claim C8 as stated fails for a value that is neither a string nor an array of strings
  and yet has a positive length: \<open>isStringArray\<close> only looks at the length, so
  \<open>add([1])\<close> appends the message \<open>{ text: { text: [1] } }\<close>, and
  \<open>add({ length: 1 })\<close> does not return with the instance unchanged either.
\<close>

theorem add_number_array_counterexample:
  "\<not> is_string (JArr [JNum 1])
   \<and> messages_at start_client 0 = [OtherMessage ''card'']
   \<and> messages_at (projr (add (JArr [JNum 1]) start_client)) 0 =
       [OtherMessage ''card'', TextMessage [JNum 1]]
   \<and> \<not> is_string (JObj (Some 1) []) \<and> \<not> is_array (JObj (Some 1) [])
   \<and> add (JObj (Some 1) []) start_client \<noteq> Inr start_client"
  by (simp add: add_def isStringArray_def push_text_def start_client_eq)

subsection \<open>A response body without arrays\<close>

text \<open>
  Claim C9. When the request's \<open>queryResult\<close> has no \<open>fulfillmentMessages\<close> (or there
  is no \<open>queryResult\<close>), the constructed instance has \<open>undefined\<close> in the message field of
  its response body; \<open>add\<close> of a string, of an array of strings, and any run of \<open>add\<close>
  calls (on strings, arrays, or anything else but an object with a positive \<open>length\<close>)
  return without error and leave the instance as it is. \<open>clearContexts\<close> does not
  change that: the field stays \<open>undefined\<close> and \<open>add\<close> silent. \<open>clearFulfillments\<close> gives
  the field an empty array, and \<open>add\<close> then appends: a string gives exactly that one
  message, a non-empty array of strings one message per element, in order.
\<close>

theorem add_is_silent_until_clearFulfillments:
  assumes "WebhookClient st (Def b) = Inr c"
      and "\<forall>q. req_queryResult b = Def q \<longrightarrow> qr_fulfillmentMessages q = Undefined"
  shows "resp_fulfillmentMessages (webhookResponseBody c) = Undefined
       \<and> add (JStr s) c = Inr c
       \<and> add (JArr (map JStr l)) c = Inr c
       \<and> ((\<forall>x \<in> set xs. \<not> array_like x) \<longrightarrow> calls (map add xs) c = Inr c)
       \<and> (\<exists>c0. clearContexts c = Inr c0
            \<and> resp_fulfillmentMessages (webhookResponseBody c0) = Undefined
            \<and> add (JStr s) c0 = Inr c0
            \<and> add (JArr (map JStr l)) c0 = Inr c0)
       \<and> (\<exists>c1. clearFulfillments c = Inr c1
            \<and> messages_of c1 (resp_fulfillmentMessages (webhookResponseBody c1)) = Def []
            \<and> (\<exists>c2. add (JStr s) c1 = Inr c2
                 \<and> messages_of c2 (resp_fulfillmentMessages (webhookResponseBody c2)) =
                     Def [TextMessage [JStr s]])
            \<and> (l \<noteq> [] \<longrightarrow>
                 (\<exists>c3. add (JArr (map JStr l)) c1 = Inr c3
                    \<and> messages_of c3 (resp_fulfillmentMessages (webhookResponseBody c3)) =
                        Def (map (\<lambda>t. TextMessage [JStr t]) l))))"
proof -
  have u: "resp_fulfillmentMessages (webhookResponseBody c) = Undefined"
    using assms by (auto simp: WebhookClient_def opt_chain_def split: nullable.splits)
  then have no: "\<forall>r. resp_fulfillmentMessages (webhookResponseBody c) \<noteq> Def r"
    by simp
  define c1 where "c1 = c\<lparr> messages_at := (messages_at c)(fresh c := []),
      fresh := Suc (fresh c),
      webhookResponseBody := (webhookResponseBody c)\<lparr> resp_fulfillmentMessages := Def (fresh c) \<rparr> \<rparr>"
  have clear: "clearFulfillments c = Inr c1"
    by (simp add: clearFulfillments_def c1_def)
  have r1: "resp_fulfillmentMessages (webhookResponseBody c1) = Def (fresh c)"
    by (simp add: c1_def)
  have empty: "messages_at c1 (fresh c) = []"
    by (simp add: c1_def)
  have after: "messages_of c1 (resp_fulfillmentMessages (webhookResponseBody c1)) = Def []"
    by (simp add: messages_of_def r1 empty)
  have one: "\<exists>c2. add (JStr s) c1 = Inr c2
      \<and> messages_of c2 (resp_fulfillmentMessages (webhookResponseBody c2)) =
          Def [TextMessage [JStr s]]"
    using add_string_Def [OF r1, of s] by (simp add: messages_of_def r1 empty)
  have many: "l \<noteq> [] \<longrightarrow> (\<exists>c3. add (JArr (map JStr l)) c1 = Inr c3
      \<and> messages_of c3 (resp_fulfillmentMessages (webhookResponseBody c3)) =
          Def (map (\<lambda>t. TextMessage [JStr t]) l))"
    using add_strings_Def [OF r1, of l] by (simp add: messages_of_def r1 empty)
  have str: "add (JStr s) c = Inr c" and arr: "add (JArr (map JStr l)) c = Inr c"
    by (simp_all add: add_without_array [OF no])
  have run: "(\<forall>x \<in> set xs. \<not> array_like x) \<longrightarrow> calls (map add xs) c = Inr c"
    using calls_add_without_array [OF no] by blast
  define c0 where "c0 = c\<lparr> contexts_at := (contexts_at c)(fresh c := []),
      fresh := Suc (fresh c),
      webhookResponseBody := (webhookResponseBody c)\<lparr> resp_outputContexts := Def (fresh c) \<rparr> \<rparr>"
  have other: "clearContexts c = Inr c0"
    by (simp add: clearContexts_def c0_def)
  have u0: "resp_fulfillmentMessages (webhookResponseBody c0) = Undefined"
    by (simp add: c0_def u)
  then have no0: "\<forall>r. resp_fulfillmentMessages (webhookResponseBody c0) \<noteq> Def r"
    by simp
  have still: "add (JStr s) c0 = Inr c0 \<and> add (JArr (map JStr l)) c0 = Inr c0"
    by (simp add: add_without_array [OF no0])
  have before: "\<exists>c0. clearContexts c = Inr c0
      \<and> resp_fulfillmentMessages (webhookResponseBody c0) = Undefined
      \<and> add (JStr s) c0 = Inr c0 \<and> add (JArr (map JStr l)) c0 = Inr c0"
    using other u0 still by blast
  have later: "\<exists>c1. clearFulfillments c = Inr c1
      \<and> messages_of c1 (resp_fulfillmentMessages (webhookResponseBody c1)) = Def []
      \<and> (\<exists>c2. add (JStr s) c1 = Inr c2
           \<and> messages_of c2 (resp_fulfillmentMessages (webhookResponseBody c2)) =
               Def [TextMessage [JStr s]])
      \<and> (l \<noteq> [] \<longrightarrow>
           (\<exists>c3. add (JArr (map JStr l)) c1 = Inr c3
              \<and> messages_of c3 (resp_fulfillmentMessages (webhookResponseBody c3)) =
                  Def (map (\<lambda>t. TextMessage [JStr t]) l)))"
    using clear after one many by blast
  show ?thesis
    using u str arr run before later by blast
qed

theorem add_is_silent_until_clearFulfillments_witness:
  "WebhookClient example_store (Def bare_request) = Inr bare_client
   \<and> req_queryResult bare_request = Undefined
   \<and> add (JStr ''x'') bare_client = Inr bare_client
   \<and> add (JArr [JStr ''a'', JStr ''b'']) bare_client = Inr bare_client
   \<and> calls [add (JStr ''x''), add (JArr [JStr ''a'', JStr ''b''])] bare_client = Inr bare_client
   \<and> sent_fulfillmentMessages (serialized (projr
        (calls [clearFulfillments, add (JStr ''x''), add (JArr [JStr ''a'', JStr ''b''])]
           bare_client))) =
       Def [TextMessage [JStr ''x''], TextMessage [JStr ''a''], TextMessage [JStr ''b'']]
   \<and> WebhookClient example_store (Def plain_request) = Inr plain_client
   \<and> add (JStr ''x'') plain_client = Inr plain_client
   \<and> sent_fulfillmentMessages (serialized (projr
        (calls [clearFulfillments, add (JStr ''x'')] plain_client))) = Def [TextMessage [JStr ''x'']]"
proof -
  have w: "WebhookClient example_store (Def bare_request) = Inr bare_client"
    by (simp add: bare_client_def WebhookClient_def)
  have q: "\<forall>q. req_queryResult bare_request = Def q \<longrightarrow> qr_fulfillmentMessages q = Undefined"
    by (simp add: bare_request_def)
  have w': "WebhookClient example_store (Def plain_request) = Inr plain_client"
    by (simp add: plain_client_def WebhookClient_def)
  have q': "\<forall>q. req_queryResult plain_request = Def q \<longrightarrow> qr_fulfillmentMessages q = Undefined"
    by (simp add: plain_request_def)
  show ?thesis
    using add_is_silent_until_clearFulfillments
        [OF w q, of "''x''" "[''a'', ''b'']" "[JStr ''x'', JArr [JStr ''a'', JStr ''b'']]"]
      add_is_silent_until_clearFulfillments [OF w' q', of "''x''" "[]" "[]"] w w'
    by (simp add: bare_client_eq plain_client_eq bare_request_def clearFulfillments_def add_def
        isStringArray_def push_text_def serialized_def messages_of_def)
qed

text \<open>
  Claim C10. When the request's \<open>queryResult\<close> has no \<open>outputContexts\<close> (or there is
  no \<open>queryResult\<close>), the constructed instance has \<open>undefined\<close> in the context field of
  its response body, and \<open>addContext\<close> raises a TypeError for a single context (an
  instance of \<open>Context\<close> or a plain record) and for any array of contexts, where
  \<open>add\<close> raises nothing on a string, an array, or anything else but an object with a
  positive \<open>length\<close>. \<open>clearFulfillments\<close> does not change that. After
  \<open>clearContexts\<close> the field is an empty array and \<open>addContext\<close> appends to it.
\<close>

theorem addContext_raises_until_clearContexts:
  assumes "WebhookClient st (Def b) = Inr c"
      and "\<forall>q. req_queryResult b = Def q \<longrightarrow> qr_outputContexts q = Undefined"
  shows "resp_outputContexts (webhookResponseBody c) = Undefined
       \<and> addContext (ContextInstance x) c = Inl TypeError
       \<and> addContext (PlainRecord x) c = Inl TypeError
       \<and> addContext (ContextArray xs) c = Inl TypeError
       \<and> (\<forall>v e. \<not> array_like v \<longrightarrow> add v c \<noteq> Inl e)
       \<and> (\<exists>c0. clearFulfillments c = Inr c0
            \<and> resp_outputContexts (webhookResponseBody c0) = Undefined
            \<and> addContext (ContextInstance x) c0 = Inl TypeError
            \<and> addContext (ContextArray xs) c0 = Inl TypeError)
       \<and> (\<exists>c1. clearContexts c = Inr c1
            \<and> contexts_of c1 (resp_outputContexts (webhookResponseBody c1)) = Def []
            \<and> (\<exists>c2. addContext (ContextInstance x) c1 = Inr c2
                 \<and> contexts_of c2 (resp_outputContexts (webhookResponseBody c2)) = Def [x])
            \<and> (\<exists>c3. addContext (ContextArray xs) c1 = Inr c3
                 \<and> contexts_of c3 (resp_outputContexts (webhookResponseBody c3)) = Def xs))"
proof -
  have u: "resp_outputContexts (webhookResponseBody c) = Undefined"
    using assms by (auto simp: WebhookClient_def opt_chain_def split: nullable.splits)
  have raise: "addContext (ContextInstance x) c = Inl TypeError
      \<and> addContext (PlainRecord x) c = Inl TypeError
      \<and> addContext (ContextArray xs) c = Inl TypeError"
    by (simp add: addContext_def u)
  have quiet: "\<forall>v e. \<not> array_like v \<longrightarrow> add v c \<noteq> Inl e"
    using add_never_raises by blast
  define c1 where "c1 = c\<lparr> contexts_at := (contexts_at c)(fresh c := []),
      fresh := Suc (fresh c),
      webhookResponseBody := (webhookResponseBody c)\<lparr> resp_outputContexts := Def (fresh c) \<rparr> \<rparr>"
  have clear: "clearContexts c = Inr c1"
    by (simp add: clearContexts_def c1_def)
  have r1: "resp_outputContexts (webhookResponseBody c1) = Def (fresh c)"
    by (simp add: c1_def)
  have empty: "contexts_at c1 (fresh c) = []"
    by (simp add: c1_def)
  have after: "contexts_of c1 (resp_outputContexts (webhookResponseBody c1)) = Def []"
    by (simp add: contexts_of_def r1 empty)
  note app = addContext_Def [OF r1, of x xs]
  have one: "\<exists>c2. addContext (ContextInstance x) c1 = Inr c2
      \<and> contexts_of c2 (resp_outputContexts (webhookResponseBody c2)) = Def [x]"
    using app by (simp add: contexts_of_def r1 empty)
  have many: "\<exists>c3. addContext (ContextArray xs) c1 = Inr c3
      \<and> contexts_of c3 (resp_outputContexts (webhookResponseBody c3)) = Def xs"
    using app by (simp add: contexts_of_def r1 empty)
  define c0 where "c0 = c\<lparr> messages_at := (messages_at c)(fresh c := []),
      fresh := Suc (fresh c),
      webhookResponseBody := (webhookResponseBody c)\<lparr> resp_fulfillmentMessages := Def (fresh c) \<rparr> \<rparr>"
  have other: "clearFulfillments c = Inr c0"
    by (simp add: clearFulfillments_def c0_def)
  have u0: "resp_outputContexts (webhookResponseBody c0) = Undefined"
    by (simp add: c0_def u)
  have still: "addContext (ContextInstance x) c0 = Inl TypeError
      \<and> addContext (ContextArray xs) c0 = Inl TypeError"
    by (simp add: addContext_def u0)
  have before: "\<exists>c0. clearFulfillments c = Inr c0
      \<and> resp_outputContexts (webhookResponseBody c0) = Undefined
      \<and> addContext (ContextInstance x) c0 = Inl TypeError
      \<and> addContext (ContextArray xs) c0 = Inl TypeError"
    using other u0 still by blast
  have later: "\<exists>c1. clearContexts c = Inr c1
      \<and> contexts_of c1 (resp_outputContexts (webhookResponseBody c1)) = Def []
      \<and> (\<exists>c2. addContext (ContextInstance x) c1 = Inr c2
           \<and> contexts_of c2 (resp_outputContexts (webhookResponseBody c2)) = Def [x])
      \<and> (\<exists>c3. addContext (ContextArray xs) c1 = Inr c3
           \<and> contexts_of c3 (resp_outputContexts (webhookResponseBody c3)) = Def xs)"
    using clear after one many by blast
  show ?thesis
    using u raise quiet before later by blast
qed

theorem addContext_raises_until_clearContexts_witness:
  "WebhookClient example_store (Def bare_request) = Inr bare_client
   \<and> req_queryResult bare_request = Undefined
   \<and> addContext (ContextInstance paid_context) bare_client = Inl TypeError
   \<and> addContext (PlainRecord paid_context) bare_client = Inl TypeError
   \<and> addContext (ContextArray []) bare_client = Inl TypeError
   \<and> calls [clearContexts, addContext (ContextInstance paid_context), addContext (ContextArray [order_context])]
        bare_client \<noteq> Inl TypeError
   \<and> sent_outputContexts (serialized (projr
        (calls [clearContexts, addContext (ContextInstance paid_context), addContext (ContextArray [order_context])]
           bare_client))) = Def [paid_context, order_context]
   \<and> WebhookClient example_store (Def plain_request) = Inr plain_client
   \<and> addContext (ContextInstance paid_context) plain_client = Inl TypeError
   \<and> addContext (ContextArray [paid_context, order_context]) plain_client = Inl TypeError"
proof -
  have w: "WebhookClient example_store (Def bare_request) = Inr bare_client"
    by (simp add: bare_client_def WebhookClient_def)
  have q: "\<forall>q. req_queryResult bare_request = Def q \<longrightarrow> qr_outputContexts q = Undefined"
    by (simp add: bare_request_def)
  have w': "WebhookClient example_store (Def plain_request) = Inr plain_client"
    by (simp add: plain_client_def WebhookClient_def)
  have q': "\<forall>q. req_queryResult plain_request = Def q \<longrightarrow> qr_outputContexts q = Undefined"
    by (simp add: plain_request_def)
  show ?thesis
    using addContext_raises_until_clearContexts [OF w q, of paid_context "[]"]
      addContext_raises_until_clearContexts
        [OF w' q', of paid_context "[paid_context, order_context]"] w w'
    by (simp add: bare_client_eq bare_request_def clearContexts_def addContext_def
        serialized_def contexts_of_def)
qed


subsection \<open>The request body under mutation\<close>

lemma fold_push_text_frame:
  "webhookRequestBody (fold push_text xs c) = webhookRequestBody c
   \<and> webhookResponseBody (fold push_text xs c) = webhookResponseBody c
   \<and> sent (fold push_text xs c) = sent c"
  by (induction xs arbitrary: c) (simp_all add: push_text_def split: nullable.splits)

lemma add_keeps_request:
  "add x c = Inr c' \<Longrightarrow> webhookRequestBody c' = webhookRequestBody c \<and> sent c' = sent c"
  by (cases x)
    (auto simp: add_def isStringArray_def push_text_def fold_push_text_frame
      split: nullable.splits if_splits)

lemma mutate_keeps_request:
  "mutate m c = Inr c' \<Longrightarrow> webhookRequestBody c' = webhookRequestBody c \<and> sent c' = sent c"
  by (cases m)
    (auto simp: add_keeps_request addContext_def clearFulfillments_def clearContexts_def
      split: nullable.splits context_arg.splits)

lemma calls_mutate_keeps_request:
  "calls (map mutate ms) c = Inr c' \<Longrightarrow>
   webhookRequestBody c' = webhookRequestBody c \<and> sent c' = sent c"
proof (induction ms arbitrary: c)
  case Nil
  then show ?case by simp
next
  case (Cons m ms)
  then obtain c1 where m: "mutate m c = Inr c1" and rest: "calls (map mutate ms) c1 = Inr c'"
    by (auto split: sum.splits)
  show ?case
    using Cons.IH [OF rest] mutate_keeps_request [OF m] by simp
qed

lemma add_elsewhere:
  assumes "resp_fulfillmentMessages (webhookResponseBody c) = Def a" and "add x c = Inr c'"
    and "r \<noteq> a"
  shows "messages_at c' r = messages_at c r"
  using assms
  by (cases x) (auto simp: add_def isStringArray_def push_text_def fold_push_text_Def split: if_splits)

text \<open>
  Claim C4. The claim asks that what a getter returns is the same before and after any
  mutation calls. The getter \<open>fulfillmentMessages\<close> returns the request's message
  array, and the constructor put that very array into the response body: on the
  instance built from a request with one card message, \<open>add("x")\<close> pushes onto it, and
  the getter, which returned an array holding the card before the call, returns the
  same array holding the card and the text \<open>x\<close> after it.
\<close>

theorem add_changes_fulfillmentMessages_getter:
  "fulfillmentMessages start_client = Def 0
   \<and> messages_of start_client (fulfillmentMessages start_client) = Def [OtherMessage ''card'']
   \<and> fulfillmentMessages (projr (add (JStr ''x'') start_client)) = Def 0
   \<and> messages_of (projr (add (JStr ''x'') start_client))
        (fulfillmentMessages (projr (add (JStr ''x'') start_client))) =
       Def [OtherMessage ''card'', TextMessage [JStr ''x'']]"
  by (simp add: start_client_eq start_request_def add_def push_text_def fulfillmentMessages_def
      opt_chain_def or_null_def messages_of_def)

text \<open>
  What does hold under mutation: a run of mutation calls that completes leaves the
  request body record and the log of sent bodies as they were, so every getter returns
  what it returned before, the two array getters the same array (whose contents may have
  changed, as above).
\<close>

theorem mutations_keep_references:
  assumes "calls (map mutate ms) c = Inr c'"
  shows "webhookRequestBody c' = webhookRequestBody c
       \<and> sent c' = sent c
       \<and> responseId c' = responseId c \<and> session c' = session c \<and> query c' = query c
       \<and> parameters c' = parameters c
       \<and> allRequiredParamsPresent c' = allRequiredParamsPresent c
       \<and> fulfillmentText c' = fulfillmentText c
       \<and> fulfillmentMessages c' = fulfillmentMessages c
       \<and> outputContexts c' = outputContexts c
       \<and> intent c' = intent c
       \<and> intentDetectionConfidence c' = intentDetectionConfidence c
       \<and> diagnosticInfo c' = diagnosticInfo c
       \<and> languageCode c' = languageCode c
       \<and> originalDetectIntentRequest c' = originalDetectIntentRequest c"
  using calls_mutate_keeps_request [OF assms]
  by (simp add: query_def parameters_def allRequiredParamsPresent_def fulfillmentText_def
      fulfillmentMessages_def outputContexts_def intent_def intentDetectionConfidence_def
      diagnosticInfo_def languageCode_def responseId_def session_def
      originalDetectIntentRequest_def)

theorem mutations_keep_references_witness:
  "query (projr (calls (map mutate
       [Add (JStr ''x''), AddContext (ContextInstance paid_context), ClearFulfillments, ClearContexts,
        Add (JArr [JStr ''a''])]) start_client)) = Def ''hi''
   \<and> sent (projr (calls (map mutate
       [Add (JStr ''x''), AddContext (ContextInstance paid_context), ClearFulfillments, ClearContexts,
        Add (JArr [JStr ''a''])]) start_client)) = []"
proof -
  let ?ms = "[Add (JStr ''x''), AddContext (ContextInstance paid_context), ClearFulfillments, ClearContexts,
        Add (JArr [JStr ''a''])]"
  have run: "calls (map mutate ?ms) start_client = Inr (projr (calls (map mutate ?ms) start_client))"
    by (simp add: start_client_eq add_def isStringArray_def push_text_def addContext_def
        clearFulfillments_def clearContexts_def)
  have q: "query start_client = Def ''hi''"
    by (simp add: query_def start_client_eq start_request_def opt_chain_def or_null_def)
  show ?thesis
    using mutations_keep_references [OF run] q by (simp add: start_client_eq)
qed

text \<open>
  Once \<open>clearFulfillments\<close> has given the response body an array of its own, \<open>add\<close>
  no longer reaches the request's array (which, as every array in use, lies below the
  next free address).
\<close>

theorem add_after_clearFulfillments_spares_request:
  assumes "fulfillmentMessages c = Def r" and "r < fresh c"
    and "clearFulfillments c = Inr c1" and "add x c1 = Inr c2"
  shows "fulfillmentMessages c2 = Def r
       \<and> messages_of c2 (fulfillmentMessages c2) = messages_of c (fulfillmentMessages c)"
proof -
  have c1: "c1 = c\<lparr> messages_at := (messages_at c)(fresh c := []),
      fresh := Suc (fresh c),
      webhookResponseBody := (webhookResponseBody c)\<lparr> resp_fulfillmentMessages := Def (fresh c) \<rparr> \<rparr>"
    using assms(3) by (simp add: clearFulfillments_def)
  have r1: "resp_fulfillmentMessages (webhookResponseBody c1) = Def (fresh c)"
    by (simp add: c1)
  have ne: "r \<noteq> fresh c"
    using assms(2) by simp
  have same: "messages_at c2 r = messages_at c1 r"
    by (rule add_elsewhere [OF r1 assms(4) ne])
  have req: "webhookRequestBody c2 = webhookRequestBody c"
    using add_keeps_request [OF assms(4)] by (simp add: c1)
  have g: "fulfillmentMessages c2 = fulfillmentMessages c"
    by (simp add: fulfillmentMessages_def req)
  show ?thesis
    using assms(1) ne same by (simp add: g messages_of_def c1)
qed

theorem add_after_clearFulfillments_spares_request_witness:
  "fulfillmentMessages start_client = Def 0 \<and> 0 < fresh start_client
   \<and> messages_of (projr (calls [clearFulfillments, add (JStr ''x'')] start_client))
        (fulfillmentMessages (projr (calls [clearFulfillments, add (JStr ''x'')] start_client))) =
       Def [OtherMessage ''card'']
   \<and> sent_fulfillmentMessages
        (serialized (projr (calls [clearFulfillments, add (JStr ''x'')] start_client))) =
       Def [TextMessage [JStr ''x'']]"
proof -
  have g: "fulfillmentMessages start_client = Def 0"
    by (simp add: fulfillmentMessages_def start_client_eq start_request_def opt_chain_def
        or_null_def)
  have f: "0 < fresh start_client"
    by (simp add: start_client_eq)
  have c: "clearFulfillments start_client = Inr (projr (clearFulfillments start_client))"
    by (simp add: clearFulfillments_def)
  have a: "add (JStr ''x'') (projr (clearFulfillments start_client)) =
      Inr (projr (calls [clearFulfillments, add (JStr ''x'')] start_client))"
    by (simp add: clearFulfillments_def add_def push_text_def)
  show ?thesis
    using add_after_clearFulfillments_spares_request [OF g f c a] g f
    by (simp add: start_client_eq clearFulfillments_def add_def push_text_def serialized_def
        messages_of_def)
qed

subsection \<open>Further properties of dispatch and of clearing\<close>

text \<open>
  A handler that is rejected, or never settles, ends \<open>handleRequest\<close> the same way, in
  the state the handler reached: \<open>response.send\<close> is not called.
\<close>

theorem handleRequest_sends_nothing_unless_fulfilled:
  assumes "get_property intentMap (property_key (detected_displayName c)) = Some (Callable h)"
      and "h c = (s, c')"
      and "s \<noteq> Fulfilled"
  shows "handleRequest intentMap c = (s, c')"
  using assms by (cases s) (simp_all add: handleRequest_def)

theorem handleRequest_sends_nothing_unless_fulfilled_witness:
  "fst (handleRequest (object_literal [''Start'' \<mapsto> rejecting_handler]) start_client) =
     Rejected (HandlerError ''boom'')
   \<and> sent (snd (handleRequest (object_literal [''Start'' \<mapsto> rejecting_handler]) start_client)) = []"
proof -
  have n: "property_key (detected_displayName start_client) = ''Start''"
    by (simp add: start_client_eq detected_displayName_def start_request_def opt_chain_def
        property_key_def)
  have m: "get_property (object_literal [''Start'' \<mapsto> rejecting_handler])
      (property_key (detected_displayName start_client)) = Some (Callable rejecting_handler)"
    by (simp add: n get_property_def object_literal_def)
  have h: "rejecting_handler start_client =
      (Rejected (HandlerError ''boom''), snd (rejecting_handler start_client))"
    by (simp add: rejecting_handler_def add_def)
  have s: "Rejected (HandlerError ''boom'') \<noteq> Fulfilled"
    by simp
  show ?thesis
    using handleRequest_sends_nothing_unless_fulfilled
        [of "object_literal [''Start'' \<mapsto> rejecting_handler]" start_client, OF m h s]
    by (simp add: rejecting_handler_def add_def push_text_def start_client_eq)
qed

text \<open>
  In any state, \<open>clearFulfillments()\<close> followed by \<open>add(s)\<close> leaves exactly the one
  message \<open>s\<close> in the response body.
\<close>

theorem clearFulfillments_then_add:
  "\<exists>c'. calls [clearFulfillments, add (JStr s)] c = Inr c'
     \<and> sent_fulfillmentMessages (serialized c') = Def [TextMessage [JStr s]]"
  by (simp add: clearFulfillments_def add_def push_text_def serialized_def messages_of_def)


end
